theory Spec2Isabelle
  imports Complex_Main "HOL-Library.Sublist"
begin

section \<open>Python text primitives\<close>

text \<open>
  A Python \<open>str\<close> is modelled as a \<open>string\<close> whose characters are the code points
  0..255 (Latin-1). The character classes below are the ones CPython uses on that range:
  \<open>str.isspace\<close> (also the regex class \<open>\s\<close>), the regex classes \<open>\w\<close> and \<open>\d\<close>, and
  \<open>str.lower\<close>. Python floats are modelled as exact reals.
\<close>

definition isspace :: "char \<Rightarrow> bool" where
  "isspace c = (let n = (of_char c :: nat) in
     (9 \<le> n \<and> n \<le> 13) \<or> (28 \<le> n \<and> n \<le> 32) \<or> n = 133 \<or> n = 160)"

definition isdigit :: "char \<Rightarrow> bool" where
  "isdigit c = (let n = (of_char c :: nat) in 48 \<le> n \<and> n \<le> 57)"

definition isword :: "char \<Rightarrow> bool" where
  "isword c = (let n = (of_char c :: nat) in
     (48 \<le> n \<and> n \<le> 57) \<or> (65 \<le> n \<and> n \<le> 90) \<or> n = 95 \<or> (97 \<le> n \<and> n \<le> 122)
     \<or> n = 170 \<or> n = 178 \<or> n = 179 \<or> n = 181 \<or> n = 185 \<or> n = 186
     \<or> (188 \<le> n \<and> n \<le> 190) \<or> (192 \<le> n \<and> n \<le> 214) \<or> (216 \<le> n \<and> n \<le> 246)
     \<or> 248 \<le> n)"

definition lower_chr :: "char \<Rightarrow> char" where
  "lower_chr c = (let n = (of_char c :: nat) in
     if (65 \<le> n \<and> n \<le> 90) \<or> (192 \<le> n \<and> n \<le> 214) \<or> (216 \<le> n \<and> n \<le> 222)
     then char_of (n + 32) else c)"

text \<open>\<open>s.lower()\<close>\<close>

definition py_lower :: "string \<Rightarrow> string" where
  "py_lower s = map lower_chr s"

text \<open>\<open>s.strip()\<close>\<close>

definition py_strip :: "string \<Rightarrow> string" where
  "py_strip s = rev (dropWhile isspace (rev (dropWhile isspace s)))"

text \<open>\<open>needle in hay\<close>\<close>

primrec py_in :: "string \<Rightarrow> string \<Rightarrow> bool" where
  "py_in needle [] = (needle = [])"
| "py_in needle (c # cs) = (prefix needle (c # cs) \<or> py_in needle cs)"

text \<open>\<open>s.startswith(p)\<close>\<close>

definition startswith :: "string \<Rightarrow> string \<Rightarrow> bool" where
  "startswith s p = prefix p s"

text \<open>
  \<open>s.split(sep)\<close> for a separator string; \<open>acc\<close> holds the current piece, reversed.
  Python raises \<open>ValueError\<close> on an empty separator; every call site passes a
  non-empty literal, and the model returns the text unsplit there.
\<close>

function split_from :: "string \<Rightarrow> string \<Rightarrow> string \<Rightarrow> string list" where
  "split_from sep acc [] = [rev acc]"
| "split_from sep acc (c # cs) =
     (if sep \<noteq> [] \<and> prefix sep (c # cs)
      then rev acc # split_from sep [] (drop (length sep) (c # cs))
      else split_from sep (c # acc) cs)"
  by pat_completeness auto
termination
  by (relation "measure (\<lambda>(sep, acc, s). length s)") (auto simp: neq_Nil_conv)

definition py_split :: "string \<Rightarrow> string \<Rightarrow> string list" where
  "py_split s sep = split_from sep [] s"

section \<open>Error classifier (main.py, classify\_error)\<close>

definition classify_error :: "string \<Rightarrow> string" where
  "classify_error error_message =
    (if error_message = [] then ''UnknownError''
     else let error_lower = py_lower error_message in
       if py_in ''indexerror'' error_lower \<or> py_in ''arrayindexoutofbounds'' error_lower
         then ''IndexError''
       else if py_in ''syntaxerror'' error_lower then ''SyntaxError''
       else if py_in ''nameerror'' error_lower \<or> py_in ''cannot find symbol'' error_lower
         then ''NameError''
       else if py_in ''typeerror'' error_lower then ''TypeError''
       else if py_in ''indentationerror'' error_lower then ''IndentationError''
       else if py_in ''zerodivisionerror'' error_lower \<or> py_in ''divide by zero'' error_lower
         then ''ZeroDivisionError''
       else if py_in ''keyerror'' error_lower then ''KeyError''
       else if py_in ''attributeerror'' error_lower then ''AttributeError''
       else if py_in ''valueerror'' error_lower then ''ValueError''
       else if py_in ''timeout'' error_lower then ''TimeoutError''
       else if py_in ''off by one'' error_lower
               \<or> (py_in ''index'' error_lower \<and> py_in ''range'' error_lower)
         then ''off_by_one''
       else if py_in ''missing return'' error_lower \<or> py_in ''does not return'' error_lower
         then ''missing_return''
       else if py_in ''infinite loop'' error_lower \<or> py_in ''while true'' error_lower
         then ''infinite_loop''
       else (case py_split (py_strip error_message) [CHR 0x0A] of
               [] \<Rightarrow> ''RuntimeError''
             | first_line # _ \<Rightarrow>
                 if py_in '':'' first_line
                 then (case py_split first_line '':'' of [] \<Rightarrow> [] | kind # _ \<Rightarrow> kind)
                 else ''RuntimeError''))"

text \<open>
  The classifier as the specification words it: a fixed priority list of rules, each a
  result kind with alternative groups of substrings (a group matches when all its
  substrings occur in the lower-cased text); the first rule with a matching group wins.
\<close>

definition priority_rules :: "(string list list \<times> string) list" where
  "priority_rules =
    [([[''indexerror''], [''arrayindexoutofbounds'']], ''IndexError''),
     ([[''syntaxerror'']], ''SyntaxError''),
     ([[''nameerror''], [''cannot find symbol'']], ''NameError''),
     ([[''typeerror'']], ''TypeError''),
     ([[''indentationerror'']], ''IndentationError''),
     ([[''zerodivisionerror''], [''divide by zero'']], ''ZeroDivisionError''),
     ([[''keyerror'']], ''KeyError''),
     ([[''attributeerror'']], ''AttributeError''),
     ([[''valueerror'']], ''ValueError''),
     ([[''timeout'']], ''TimeoutError''),
     ([[''off by one''], [''index'', ''range'']], ''off_by_one''),
     ([[''missing return''], [''does not return'']], ''missing_return''),
     ([[''infinite loop''], [''while true'']], ''infinite_loop'')]"

definition rule_matches :: "string \<Rightarrow> string list list \<times> string \<Rightarrow> bool" where
  "rule_matches text r = list_ex (list_all (\<lambda>s. py_in s text)) (fst r)"

definition first_match :: "string \<Rightarrow> string option" where
  "first_match text = map_option snd (find (rule_matches text) priority_rules)"

section \<open>Similarity metrics of the manual checker (main.py, ManualCodeChecker)\<close>

subsection \<open>\_normalize\_code\<close>

text \<open>
  \<open>re.sub(r'#.*$', '', code, flags=re.MULTILINE)\<close>: every \<open>#\<close> is removed together with
  the rest of its line (\<open>.\<close> matches everything but the newline, which stays).
\<close>

function remove_comments :: "string \<Rightarrow> string" where
  "remove_comments [] = []"
| "remove_comments (c # cs) =
     (if c = CHR ''#'' then remove_comments (dropWhile (\<lambda>x. x \<noteq> CHR 0x0A) cs)
      else c # remove_comments cs)"
  by pat_completeness auto
termination
  by (relation "measure length") (auto simp: length_dropWhile_le less_Suc_eq_le)

text \<open>\<open>re.sub(r'\s+', ' ', code)\<close>: every maximal run of whitespace becomes one space.\<close>

function collapse_whitespace :: "string \<Rightarrow> string" where
  "collapse_whitespace [] = []"
| "collapse_whitespace (c # cs) =
     (if isspace c then CHR '' '' # collapse_whitespace (dropWhile isspace cs)
      else c # collapse_whitespace cs)"
  by pat_completeness auto
termination
  by (relation "measure length") (auto simp: length_dropWhile_le less_Suc_eq_le)

text \<open>
  \<open>re.sub(r'"[^"]*"', '""', code)\<close> for the quote character \<open>q\<close>: scanning from the left,
  a quote with a later closing quote is replaced, with everything between them, by two
  quotes; a quote with no closing quote stays.
\<close>

function blank_literals :: "char \<Rightarrow> string \<Rightarrow> string" where
  "blank_literals q [] = []"
| "blank_literals q (c # cs) =
     (if c = q then
        (case dropWhile (\<lambda>x. x \<noteq> q) cs of
           [] \<Rightarrow> c # cs
         | _ # rest \<Rightarrow> q # q # blank_literals q rest)
      else c # blank_literals q cs)"
  by pat_completeness auto
termination
proof (relation "measure (\<lambda>(q, s). length s)")
  show "wf (measure (\<lambda>(q, s). length s))"
    by simp
next
  fix q :: char and c :: char and cs :: string and x :: char and rest :: string
  assume "dropWhile (\<lambda>x. x \<noteq> q) cs = x # rest"
  then have "length (x # rest) \<le> length cs"
    by (metis length_dropWhile_le)
  then show "((q, rest), (q, c # cs)) \<in> measure (\<lambda>(q, s). length s)"
    by simp
next
  fix q :: char and c :: char and cs :: string
  show "((q, cs), (q, c # cs)) \<in> measure (\<lambda>(q, s). length s)"
    by simp
qed

definition normalize_code :: "string \<Rightarrow> string" where
  "normalize_code code =
     (let code = remove_comments code;
          code = collapse_whitespace code;
          code = blank_literals (CHR 0x22) code;
          code = blank_literals (CHR 0x27) code
      in py_lower (py_strip code))"

subsection \<open>\_check\_syntax\_match\<close>

text \<open>
  \<open>re.findall(r'\b\w+\b', s)\<close>: the maximal runs of word characters, from left to right.
\<close>

function word_tokens :: "string \<Rightarrow> string list" where
  "word_tokens [] = []"
| "word_tokens (c # cs) =
     (if isword c then (c # takeWhile isword cs) # word_tokens (dropWhile isword cs)
      else word_tokens cs)"
  by pat_completeness auto
termination
  by (relation "measure length") (auto simp: length_dropWhile_le less_Suc_eq_le)

definition check_syntax_match :: "string \<Rightarrow> string \<Rightarrow> real" where
  "check_syntax_match code1 code2 =
     (let code1_norm = normalize_code code1;
          code2_norm = normalize_code code2;
          tokens1 = word_tokens code1_norm;
          tokens2 = word_tokens code2_norm
      in if tokens1 = [] \<or> tokens2 = [] then 0
         else let set1 = set tokens1;
                  set2 = set tokens2;
                  intersection = card (set1 \<inter> set2);
                  union = card (set1 \<union> set2)
              in if union > 0 then real intersection / real union else 0)"

subsection \<open>\_check\_structure\_match\<close>

definition elements :: "string list" where
  "elements = [''def '', ''if '', ''for '', ''while '', ''return '', ''import '', ''from '',
               ''class '']"

text \<open>\<open>sum(1 for elem in elements if elem in code)\<close>\<close>

definition count_elements :: "string \<Rightarrow> nat" where
  "count_elements code = length (filter (\<lambda>elem. py_in elem code) elements)"

definition check_structure_match :: "string \<Rightarrow> string \<Rightarrow> real" where
  "check_structure_match code1 code2 =
     (let count1 = count_elements code1;
          count2 = count_elements code2
      in if count1 = 0 \<and> count2 = 0 then 1
         else let diff = \<bar>int count1 - int count2\<bar>;
                  max_count = max (max count1 count2) 1
              in 1 - real_of_int diff / real max_count)"

text \<open>
  The structural score as the specification words it: the counts are the numbers of
  occurrences of the structural keywords (function/def, if, for, while, return, import,
  class) in each body.
\<close>

primrec occurrences :: "string \<Rightarrow> string \<Rightarrow> nat" where
  "occurrences kw [] = 0"
| "occurrences kw (c # cs) = (if prefix kw (c # cs) then 1 else 0) + occurrences kw cs"

definition spec_keywords :: "string list" where
  "spec_keywords = [''function'', ''def'', ''if'', ''for'', ''while'', ''return'', ''import'',
                    ''class'']"

definition spec_keyword_count :: "string \<Rightarrow> nat" where
  "spec_keyword_count code = sum_list (map (\<lambda>kw. occurrences kw code) spec_keywords)"

definition spec_structural :: "string \<Rightarrow> string \<Rightarrow> real" where
  "spec_structural code1 code2 =
     (let count1 = spec_keyword_count code1;
          count2 = spec_keyword_count code2
      in if count1 = 0 \<and> count2 = 0 then 1
         else 1 - real_of_int \<bar>int count1 - int count2\<bar> / real (max (max count1 count2) 1))"

subsection \<open>\_check\_logic\_match\<close>

definition logic_indicators :: "string \<Rightarrow> string list" where
  "logic_indicators language =
     (if language = ''python''
        then [''def '', ''return '', ''for '', ''while '', ''if '', ''else '', ''elif '', ''in '',
              ''range('', ''len('']
      else if language = ''javascript''
        then [''function '', ''return '', ''for '', ''while '', ''if '', ''else '', ''const '',
              ''let '', ''var '']
      else if language = ''java''
        then [''public '', ''private '', ''return '', ''for '', ''while '', ''if '', ''else '',
              ''class '', ''void '']
      else [])"

text \<open>One pass of the loop body: the amount added to \<open>score\<close> for one indicator.\<close>

definition indicator_score :: "string \<Rightarrow> string \<Rightarrow> string \<Rightarrow> real" where
  "indicator_score student_code manual_code indicator =
     (let in_student = py_in indicator student_code;
          in_manual = py_in indicator manual_code
      in if in_student \<and> in_manual then 1 / 10
         else if (in_student \<and> \<not> in_manual) \<or> (\<not> in_student \<and> in_manual) then 1 / 20
         else 0)"

definition check_logic_match :: "string \<Rightarrow> string \<Rightarrow> string \<Rightarrow> real" where
  "check_logic_match student_code manual_code language =
     (let indicators = logic_indicators language;
          score = foldl (\<lambda>score indicator.
                    score + indicator_score student_code manual_code indicator) 0 indicators
      in min score 1)"

subsection \<open>difflib.SequenceMatcher(None, a, b).ratio()\<close>

text \<open>
  The standard library's sequence matcher, with no junk predicate and the default
  \<open>autojunk\<close> heuristic: when \<open>b\<close> has 200 or more elements, an element that occurs
  more than \<open>len(b) // 100 + 1\<close> times is popular and is left out of the index
  \<open>b2j\<close>.
\<close>

definition popular :: "string \<Rightarrow> char \<Rightarrow> bool" where
  "popular b elt = (let n = length b in n \<ge> 200 \<and> count_list b elt > n div 100 + 1)"

definition b2j :: "string \<Rightarrow> char \<Rightarrow> nat list" where
  "b2j b elt = (if popular b elt then [] else filter (\<lambda>j. b ! j = elt) [0..<length b])"

type_synonym block = "nat \<times> nat \<times> nat"

text \<open>
  The body of the inner loop of \<open>find_longest_match\<close> for one index \<open>j\<close> of \<open>b\<close> with
  \<open>a[i] == b[j]\<close>; the dictionaries \<open>j2len\<close> and \<open>newj2len\<close> are functions that are 0
  where the dictionary has no key (\<open>j2len.get(j-1, 0)\<close>).
\<close>

definition inner_step ::
  "nat \<Rightarrow> (nat \<Rightarrow> nat) \<Rightarrow> nat \<Rightarrow> (nat \<Rightarrow> nat) \<times> block \<Rightarrow> (nat \<Rightarrow> nat) \<times> block" where
  "inner_step i j2len j = (\<lambda>(newj2len, (besti, bestj, bestsize)).
     let k = (if j = 0 then 0 else j2len (j - 1)) + 1
     in (newj2len(j := k),
         if k > bestsize then (i + 1 - k, j + 1 - k, k) else (besti, bestj, bestsize)))"

text \<open>
  One pass of the outer loop, for the index \<open>i\<close> of \<open>a\<close>: the inner loop runs over the
  indices of \<open>b2j[a[i]]\<close> inside the window (\<open>j < blo\<close> is skipped, \<open>j >= bhi\<close> ends the
  loop), and its \<open>newj2len\<close> is the next \<open>j2len\<close>.
\<close>

definition outer_step ::
  "string \<Rightarrow> string \<Rightarrow> nat \<Rightarrow> nat \<Rightarrow> nat \<Rightarrow> (nat \<Rightarrow> nat) \<times> block \<Rightarrow> (nat \<Rightarrow> nat) \<times> block" where
  "outer_step a b blo bhi i = (\<lambda>(j2len, best).
     fold (inner_step i j2len) (filter (\<lambda>j. blo \<le> j \<and> j < bhi) (b2j b (a ! i)))
       (\<lambda>_. 0, best))"

definition longest_indexed :: "string \<Rightarrow> string \<Rightarrow> nat \<Rightarrow> nat \<Rightarrow> nat \<Rightarrow> nat \<Rightarrow> block" where
  "longest_indexed a b alo ahi blo bhi =
     snd (fold (outer_step a b blo bhi) [alo..<ahi] (\<lambda>_. 0, (alo, blo, 0)))"

text \<open>
  The two loops that extend the best block by equal elements on each end. The two
  further loops of the library extend by junk elements, and there is no junk here.
\<close>

function extend_left :: "string \<Rightarrow> string \<Rightarrow> nat \<Rightarrow> nat \<Rightarrow> block \<Rightarrow> block" where
  "extend_left a b alo blo (besti, bestj, bestsize) =
     (if besti > alo \<and> bestj > blo \<and> a ! (besti - 1) = b ! (bestj - 1)
      then extend_left a b alo blo (besti - 1, bestj - 1, bestsize + 1)
      else (besti, bestj, bestsize))"
  by pat_completeness auto
termination
  by (relation "measure (\<lambda>(a, b, alo, blo, besti, bestj, bestsize). besti)") auto

function extend_right :: "string \<Rightarrow> string \<Rightarrow> nat \<Rightarrow> nat \<Rightarrow> block \<Rightarrow> block" where
  "extend_right a b ahi bhi (besti, bestj, bestsize) =
     (if besti + bestsize < ahi \<and> bestj + bestsize < bhi
         \<and> a ! (besti + bestsize) = b ! (bestj + bestsize)
      then extend_right a b ahi bhi (besti, bestj, bestsize + 1)
      else (besti, bestj, bestsize))"
  by pat_completeness auto
termination
  by (relation "measure (\<lambda>(a, b, ahi, bhi, besti, bestj, bestsize). ahi - (besti + bestsize))")
    auto

definition find_longest_match :: "string \<Rightarrow> string \<Rightarrow> nat \<Rightarrow> nat \<Rightarrow> nat \<Rightarrow> nat \<Rightarrow> block" where
  "find_longest_match a b alo ahi blo bhi =
     extend_right a b ahi bhi (extend_left a b alo blo (longest_indexed a b alo ahi blo bhi))"

text \<open>
  \<open>get_matching_blocks\<close>: the longest match of the window, then the blocks of the
  windows left and right of it. The library works off a queue of windows and sorts the
  blocks afterwards; the recursion yields them in that sorted order. The closing
  sentinel block of size 0 adds nothing to the ratio and is left out.
\<close>

function matching_blocks :: "string \<Rightarrow> string \<Rightarrow> nat \<Rightarrow> nat \<Rightarrow> nat \<Rightarrow> nat \<Rightarrow> block list" where
  "matching_blocks a b alo ahi blo bhi =
     (case find_longest_match a b alo ahi blo bhi of (i, j, k) \<Rightarrow>
        if k = 0 then []
        else (if alo < i \<and> blo < j then matching_blocks a b alo i blo j else [])
             @ [(i, j, k)]
             @ (if i + k < ahi \<and> j + k < bhi
                then matching_blocks a b (i + k) ahi (j + k) bhi else []))"
  by pat_completeness auto

definition ratio :: "string \<Rightarrow> string \<Rightarrow> real" where
  "ratio a b =
     (let matches = sum_list (map (\<lambda>(i, j, k). k)
                      (matching_blocks a b 0 (length a) 0 (length b)));
          length = length a + length b
      in if length \<noteq> 0 then 2 * real matches / real length else 1)"

subsection \<open>Invariants of the matcher\<close>

text \<open>
  A block lies in its window; an empty block is the initial one. A row of \<open>j2len\<close> is
  bounded by the number of rows done and by the distance to the window's left edge.
\<close>

definition in_window :: "nat \<Rightarrow> nat \<Rightarrow> nat \<Rightarrow> nat \<Rightarrow> block \<Rightarrow> bool" where
  "in_window alo ahi blo bhi blk =
     (case blk of (i, j, k) \<Rightarrow>
        alo \<le> i \<and> blo \<le> j \<and>
        (if k = 0 then i = alo \<and> j = blo else i + k \<le> ahi \<and> j + k \<le> bhi))"

definition row_ok :: "nat \<Rightarrow> nat \<Rightarrow> (nat \<Rightarrow> nat) \<Rightarrow> bool" where
  "row_ok n blo g = (\<forall>j. g j \<le> n \<and> g j \<le> j + 1 - blo)"

subsection \<open>\_compare\_outputs\<close>

text \<open>
  \<open>re.findall(r'\d+\.?\d*', s)\<close>: from the left, a maximal run of digits, then a dot if
  one follows, then the digits after it.
\<close>

function numeric_tokens :: "string \<Rightarrow> string list" where
  "numeric_tokens [] = []"
| "numeric_tokens (c # cs) =
     (if isdigit c then
        (case dropWhile isdigit cs of
           [] \<Rightarrow> [c # takeWhile isdigit cs]
         | d # rest \<Rightarrow>
             if d = CHR ''.''
             then (c # takeWhile isdigit cs @ [d] @ takeWhile isdigit rest)
                    # numeric_tokens (dropWhile isdigit rest)
             else (c # takeWhile isdigit cs) # numeric_tokens (d # rest))
      else numeric_tokens cs)"
  by pat_completeness auto
termination
proof (relation "measure length")
  show "wf (measure (length :: string \<Rightarrow> nat))"
    by simp
next
  fix c :: char and cs :: string and d :: char and rest :: string
  assume "dropWhile isdigit cs = d # rest"
  then have le: "length (d # rest) \<le> length cs"
    by (metis length_dropWhile_le)
  have "length (dropWhile isdigit rest) \<le> length rest"
    by (rule length_dropWhile_le)
  with le show "(dropWhile isdigit rest, c # cs) \<in> measure length"
    by simp
  from le show "(d # rest, c # cs) \<in> measure length"
    by simp
next
  fix c :: char and cs :: string
  show "(cs, c # cs) \<in> measure length"
    by simp
qed

definition compare_outputs :: "string \<Rightarrow> string \<Rightarrow> real" where
  "compare_outputs output1 output2 =
     (if output1 = [] \<or> output2 = [] then 0
      else let output1_clean = py_lower (py_strip output1);
               output2_clean = py_lower (py_strip output2)
           in if output1_clean = output2_clean then 1
              else let nums1 = numeric_tokens output1_clean;
                       nums2 = numeric_tokens output2_clean
                   in if nums1 \<noteq> [] \<and> nums2 \<noteq> [] \<and> nums1 = nums2 then 4 / 5
                      else ratio output1_clean output2_clean)"

text \<open>
  The output similarity as the specification words it: both sides normalized; 0 when a
  side is empty, 1 when they are equal, 0.8 when both consist of numeric tokens only
  (digits, dots and whitespace) and the token sequences are equal, otherwise the ratio.
\<close>

definition only_numeric :: "string \<Rightarrow> bool" where
  "only_numeric s = list_all (\<lambda>c. isdigit c \<or> c = CHR ''.'' \<or> isspace c) s"

definition spec_output_similarity :: "string \<Rightarrow> string \<Rightarrow> real" where
  "spec_output_similarity output1 output2 =
     (let clean1 = py_lower (py_strip output1);
          clean2 = py_lower (py_strip output2)
      in if clean1 = [] \<or> clean2 = [] then 0
         else if clean1 = clean2 then 1
         else if only_numeric clean1 \<and> only_numeric clean2
                 \<and> numeric_tokens clean1 = numeric_tokens clean2 then 4 / 5
         else ratio clean1 clean2)"

section \<open>Process runner (main.py; services/code\_executor.py)\<close>

text \<open>
  The execution host is a parameter of the model. \<open>make_temp h suffix code\<close> is what
  \<open>tempfile.NamedTemporaryFile(mode='w', suffix=suffix, delete=False)\<close> followed by
  \<open>f.write(code)\<close> does: it raises before a file exists, it creates the file and the write
  raises, or it leaves the written file at a path. \<open>run h program code\<close> is what
  \<open>subprocess.run\<close> does for the program on the file that holds \<open>code\<close>: it completes with
  a return code, stdout and stderr, or it raises. The file system is the set of existing
  paths; what the child processes write themselves is not tracked.
\<close>

datatype temp_outcome =
    TempFailed string
  | WriteFailed string string
  | TempWritten string

datatype proc_outcome =
    Completed int string string
  | TimeoutExpired
  | FileNotFoundError string
  | OtherException string

record host =
  make_temp :: "string \<Rightarrow> string \<Rightarrow> temp_outcome"
  run :: "string \<Rightarrow> string \<Rightarrow> proc_outcome"

text \<open>
  A result dictionary; a key that is absent or holds \<open>None\<close> is \<open>None\<close>. The entry
  \<open>exec_output\<close> is the key \<open>output\<close>.
\<close>

record exec_result =
  success :: bool
  exec_output :: "string option"
  error :: "string option"
  error_type :: "string option"
  return_code :: "int option"
  sandboxed :: "bool option"

text \<open>\<open>str(n)\<close> for an integer, as the f-string of the timeout message prints it.\<close>

fun str_nat :: "nat \<Rightarrow> string" where
  "str_nat n = (if n < 10 then [char_of (48 + n)]
                else str_nat (n div 10) @ [char_of (48 + n mod 10)])"

definition str_int :: "int \<Rightarrow> string" where
  "str_int n = (if n < 0 then CHR ''-'' # str_nat (nat (- n)) else str_nat (nat n))"

subsection \<open>main.py: execute\_python\_code and execute\_javascript\_code\<close>

definition timeout_result :: "int \<Rightarrow> exec_result" where
  "timeout_result timeout =
     \<lparr>success = False, exec_output = Some [],
      error = Some (''Execution timed out after '' @ str_int timeout @ '' seconds''),
      error_type = Some ''TimeoutError'', return_code = None, sandboxed = None\<rparr>"

definition exception_result :: "string \<Rightarrow> exec_result" where
  "exception_result msg =
     \<lparr>success = False, exec_output = Some [], error = Some msg,
      error_type = Some ''ExecutionError'', return_code = None, sandboxed = None\<rparr>"

definition execute_python_code ::
  "host \<Rightarrow> string \<Rightarrow> int \<Rightarrow> string set \<Rightarrow> exec_result \<times> string set" where
  "execute_python_code h code timeout fs =
     (case make_temp h ''.py'' code of
        TempFailed msg \<Rightarrow> (exception_result msg, fs)
      | WriteFailed temp_file msg \<Rightarrow> (exception_result msg, insert temp_file fs)
      | TempWritten temp_file \<Rightarrow>
          (case run h ''python'' code of
             Completed returncode out err \<Rightarrow>
               (\<lparr>success = (returncode = 0), exec_output = Some out,
                 error = (if returncode \<noteq> 0 then Some err else None),
                 error_type = (if returncode \<noteq> 0 then Some (classify_error err) else None),
                 return_code = Some returncode, sandboxed = None\<rparr>,
                insert temp_file fs - {temp_file})
           | TimeoutExpired \<Rightarrow> (timeout_result timeout, insert temp_file fs)
           | FileNotFoundError msg \<Rightarrow> (exception_result msg, insert temp_file fs)
           | OtherException msg \<Rightarrow> (exception_result msg, insert temp_file fs)))"

definition node_missing_result :: exec_result where
  "node_missing_result =
     \<lparr>success = False, exec_output = Some [],
      error = Some ''Node.js is not installed. Please install Node.js to run JavaScript code.'',
      error_type = Some ''RuntimeMissing'', return_code = None, sandboxed = None\<rparr>"

definition execute_javascript_code ::
  "host \<Rightarrow> string \<Rightarrow> int \<Rightarrow> string set \<Rightarrow> exec_result \<times> string set" where
  "execute_javascript_code h code timeout fs =
     (case make_temp h ''.js'' code of
        TempFailed msg \<Rightarrow> (exception_result msg, fs)
      | WriteFailed temp_file msg \<Rightarrow> (exception_result msg, insert temp_file fs)
      | TempWritten temp_file \<Rightarrow>
          (case run h ''node'' code of
             Completed returncode out err \<Rightarrow>
               (\<lparr>success = (returncode = 0), exec_output = Some out,
                 error = (if returncode \<noteq> 0 then Some err else None),
                 error_type = (if returncode \<noteq> 0 then Some (classify_error err) else None),
                 return_code = None, sandboxed = None\<rparr>,
                insert temp_file fs - {temp_file})
           | FileNotFoundError msg \<Rightarrow> (node_missing_result, insert temp_file fs)
           | TimeoutExpired \<Rightarrow> (timeout_result timeout, insert temp_file fs)
           | OtherException msg \<Rightarrow> (exception_result msg, insert temp_file fs)))"

subsection \<open>services/code\_executor.py: CodeExecutor.\_execute\_local\<close>

definition get_suffix :: "string \<Rightarrow> string" where
  "get_suffix language =
     (if language = ''python'' then ''.py''
      else if language = ''java'' then ''.java''
      else if language = ''javascript'' then ''.js''
      else if language = ''c'' then ''.c''
      else ''.txt'')"

definition local_failure :: "string \<Rightarrow> exec_result" where
  "local_failure msg =
     \<lparr>success = False, exec_output = None, error = Some msg, error_type = None,
      return_code = None, sandboxed = Some False\<rparr>"

text \<open>
  What a \<open>subprocess.run\<close> call of the \<open>try\<close> block leads to: the dictionary built from
  the \<open>result\<close> of a completed run, or the dictionary returned by the \<open>except\<close> clause
  that catches what it raised. The entry \<open>execution_time\<close>, a reading of the clock, is left
  out.
\<close>

definition local_run :: "host \<Rightarrow> string \<Rightarrow> string \<Rightarrow> exec_result" where
  "local_run h program code =
     (case run h program code of
        Completed returncode out err \<Rightarrow>
          \<lparr>success = (returncode = 0), exec_output = Some out,
           error = Some (if returncode \<noteq> 0 then err else []), error_type = None,
           return_code = None, sandboxed = Some False\<rparr>
      | TimeoutExpired \<Rightarrow> local_failure ''Execution timed out (10 seconds)''
      | FileNotFoundError msg \<Rightarrow> local_failure msg
      | OtherException msg \<Rightarrow> local_failure msg)"

text \<open>
  The compile step of the two-phase languages: \<open>None\<close> when the compiler returned 0 and the
  run phase follows, otherwise the dictionary returned at once.
\<close>

definition local_compile :: "host \<Rightarrow> string \<Rightarrow> string \<Rightarrow> exec_result option" where
  "local_compile h compiler code =
     (case run h compiler code of
        Completed returncode out err \<Rightarrow>
          if returncode \<noteq> 0 then Some (local_failure err) else None
      | TimeoutExpired \<Rightarrow> Some (local_failure ''Execution timed out (10 seconds)'')
      | FileNotFoundError msg \<Rightarrow> Some (local_failure msg)
      | OtherException msg \<Rightarrow> Some (local_failure msg))"

text \<open>The \<open>try\<close> block after the temporary file is written.\<close>

definition local_body :: "host \<Rightarrow> string \<Rightarrow> string \<Rightarrow> exec_result" where
  "local_body h code language =
     (if language = ''python'' then local_run h ''python'' code
      else if language = ''java'' then
        (case local_compile h ''javac'' code of
           Some failed \<Rightarrow> failed
         | None \<Rightarrow> local_run h ''java'' code)
      else if language = ''javascript'' then local_run h ''node'' code
      else if language = ''c'' then
        (case local_compile h ''gcc'' code of
           Some failed \<Rightarrow> failed
         | None \<Rightarrow> local_run h ''a.out'' code)
      else local_failure (''Unsupported language: '' @ language))"

text \<open>\<open>s.replace(old, new)\<close> for a non-empty \<open>old\<close>.\<close>

function py_replace :: "string \<Rightarrow> string \<Rightarrow> string \<Rightarrow> string" where
  "py_replace old new [] = []"
| "py_replace old new (c # cs) =
     (if old \<noteq> [] \<and> prefix old (c # cs)
      then new @ py_replace old new (drop (length old) (c # cs))
      else c # py_replace old new cs)"
  by pat_completeness auto
termination
  by (relation "measure (\<lambda>(old, new, s). length s)") (auto simp: neq_Nil_conv)

text \<open>The \<open>finally\<close> block, with \<open>temp_file\<close> bound.\<close>

definition local_cleanup :: "string \<Rightarrow> string \<Rightarrow> string set \<Rightarrow> string set" where
  "local_cleanup language temp_file fs =
     (let fs = fs - {temp_file}
      in if language = ''java'' then fs - {py_replace ''.java'' ''.class'' temp_file}
         else if language = ''c'' then fs - {temp_file @ ''.out''}
         else fs)"

text \<open>
  When the temporary file cannot be created or written, \<open>temp_file\<close> is never bound: the
  \<open>finally\<close> block raises \<open>NameError\<close> at \<open>os.unlink(temp_file)\<close>, and its own bare
  \<open>except\<close> swallows it.
\<close>

definition execute_local ::
  "host \<Rightarrow> string \<Rightarrow> string \<Rightarrow> string set \<Rightarrow> exec_result \<times> string set" where
  "execute_local h code language fs =
     (case make_temp h (get_suffix language) code of
        TempFailed msg \<Rightarrow> (local_failure msg, fs)
      | WriteFailed temp_file msg \<Rightarrow> (local_failure msg, insert temp_file fs)
      | TempWritten temp_file \<Rightarrow>
          (local_body h code language, local_cleanup language temp_file (insert temp_file fs)))"

subsection \<open>main.py: ManualCodeChecker.compare\<close>

text \<open>\<open>round(x, 2)\<close>: to the nearest hundredth, a tie to the even one.\<close>

definition py_round2 :: "real \<Rightarrow> real" where
  "py_round2 x =
     (let y = x * 100; f = \<lfloor>y\<rfloor>; r = y - of_int f
      in of_int (if r < 1 / 2 then f else if r > 1 / 2 then f + 1
                 else if even f then f else f + 1) / 100)"

definition calculate_grade :: "real \<Rightarrow> string" where
  "calculate_grade score =
     (if score \<ge> 9 / 10 then ''A''
      else if score \<ge> 8 / 10 then ''B''
      else if score \<ge> 7 / 10 then ''C''
      else if score \<ge> 6 / 10 then ''D''
      else ''F'')"

definition calculate_similarity_score :: "string \<Rightarrow> string \<Rightarrow> real" where
  "calculate_similarity_score code1 code2 = py_round2 (ratio code1 code2)"

text \<open>
  The report of \<open>compare\<close>. The entries \<open>errors\<close>, \<open>code_differences\<close> and \<open>suggestions\<close>
  are lists of texts that no other entry reads; they are left out. No step of \<open>compare\<close>
  raises on texts, so its \<open>except\<close> clause returns nothing here.
\<close>

record comparison =
  syntax_match :: real
  structure_match :: real
  logic_match :: real
  output_match :: real
  similarity_score :: real
  student_execution :: exec_result
  manual_execution :: exec_result
  overall_score :: real
  grade :: string

text \<open>The dictionary \<open>{"success": False, "output": ""}\<close> of a language that is not run.\<close>

definition not_executed :: exec_result where
  "not_executed =
     \<lparr>success = False, exec_output = Some [], error = None, error_type = None,
      return_code = None, sandboxed = None\<rparr>"

text \<open>\<open>d.get("output", "")\<close>\<close>

definition get_output :: "exec_result \<Rightarrow> string" where
  "get_output r = (case exec_output r of None \<Rightarrow> [] | Some out \<Rightarrow> out)"

definition compare ::
  "host \<Rightarrow> string \<Rightarrow> string \<Rightarrow> string \<Rightarrow> string set \<Rightarrow> comparison \<times> string set" where
  "compare h student_code manual_code language fs =
     (let (student_exec, fs) =
            (if language = ''python'' then execute_python_code h student_code 5 fs
             else (not_executed, fs));
          (manual_exec, fs) =
            (if language = ''python'' then execute_python_code h manual_code 5 fs
             else (not_executed, fs));
          syntax = check_syntax_match student_code manual_code;
          structure = check_structure_match student_code manual_code;
          logic = check_logic_match student_code manual_code language;
          outputs = compare_outputs (get_output student_exec) (get_output manual_exec);
          overall = syntax * (25 / 100) + structure * (25 / 100) + logic * (25 / 100)
                    + outputs * (25 / 100)
      in (\<lparr>syntax_match = syntax, structure_match = structure, logic_match = logic,
           output_match = outputs,
           similarity_score = calculate_similarity_score student_code manual_code,
           student_execution = student_exec, manual_execution = manual_exec,
           overall_score = py_round2 overall, grade = calculate_grade overall\<rparr>, fs))"

text \<open>Hosts for the examples: every run prints \<open>out\<close> and returns 0; every run raises.\<close>

definition printing_host :: "string \<Rightarrow> host" where
  "printing_host out =
     \<lparr>make_temp = (\<lambda>suffix code. TempWritten (''/tmp/tmpa1b2c3'' @ suffix)),
      run = (\<lambda>program code. Completed 0 out [])\<rparr>"

definition raising_host :: "proc_outcome \<Rightarrow> host" where
  "raising_host raised =
     \<lparr>make_temp = (\<lambda>suffix code. TempWritten (''/tmp/tmpa1b2c3'' @ suffix)),
      run = (\<lambda>program code. raised)\<rparr>"

section \<open>Hint retriever (services/rag\_service.py, RAGService)\<close>

text \<open>\<open>sep.join(parts)\<close>\<close>

fun py_join :: "string \<Rightarrow> string list \<Rightarrow> string" where
  "py_join sep [] = []"
| "py_join sep [x] = x"
| "py_join sep (x # y # ys) = x @ sep @ py_join sep (y # ys)"

subsection \<open>\_extract\_patterns\<close>

text \<open>The patterns one stripped, non-empty, non-comment line appends, in order.\<close>

definition line_patterns :: "string \<Rightarrow> string \<Rightarrow> string list" where
  "line_patterns language line =
     (if language = ''python'' \<and> startswith line ''def ''
      then [''function_def:'' @ py_replace ''def '' [] (hd (py_split line ''(''))] else [])
     @ (if py_in ''for '' line \<or> py_in ''while '' line then [''loop_statement''] else [])
     @ (if startswith line ''if '' \<or> startswith line ''elif '' \<or> py_in ''else:'' line
        then [''conditional_statement''] else [])
     @ (if py_in ''return '' line then [''return_statement''] else [])
     @ (if py_in '' = '' line \<and> \<not> startswith line ''def ''
        then (let var_name = py_strip (hd (py_split line '' = ''))
              in if var_name \<noteq> [] then [''var_assignment:'' @ var_name] else [])
        else [])"

text \<open>
  \<open>list(set(patterns))\<close> keeps one copy of each pattern, in an order Python does not
  fix; the model keeps the order of \<open>remdups\<close>. The score below does not depend on it.
\<close>

definition extract_patterns :: "string \<Rightarrow> string \<Rightarrow> string list" where
  "extract_patterns code language =
     remdups (concat (map (line_patterns language)
       (filter (\<lambda>line. line \<noteq> [] \<and> \<not> startswith line ''#'')
          (map py_strip (py_split (py_strip code) [CHR 0x0A])))))"

subsection \<open>\_calculate\_pattern\_match\_score\<close>

text \<open>\<open>key, value = pattern.split(':', 1)\<close> for a pattern that holds a colon.\<close>

definition pattern_key :: "string \<Rightarrow> string" where
  "pattern_key pattern = takeWhile (\<lambda>c. c \<noteq> CHR '':'') pattern"

definition pattern_value :: "string \<Rightarrow> string" where
  "pattern_value pattern = drop 1 (dropWhile (\<lambda>c. c \<noteq> CHR '':'') pattern)"

text \<open>What one pass of the loop adds to \<open>matches\<close>.\<close>

definition pattern_matches :: "string \<Rightarrow> string \<Rightarrow> nat" where
  "pattern_matches code pattern =
     (if py_in '':'' pattern then
        (if pattern_key pattern = ''function_def''
             \<and> py_in (''def '' @ pattern_value pattern) code then 2
         else if pattern_key pattern = ''var_assignment''
             \<and> py_in (pattern_value pattern @ '' = '') code then 1
         else 0)
      else if py_in pattern code then 1
      else 0)"

definition calculate_pattern_match_score :: "string list \<Rightarrow> string \<Rightarrow> real" where
  "calculate_pattern_match_score patterns code =
     (if patterns = [] then 0
      else let matches = foldl (\<lambda>matches pattern. matches + pattern_matches code pattern)
                           0 patterns
           in real matches / real (length patterns))"

subsection \<open>\_search\_by\_patterns\<close>

text \<open>
  The SQLite database is a parameter of the model: \<open>connect\<close> is the message of the
  exception \<open>sqlite3.connect\<close> raises, if it raises, and \<open>execute db query\<close> is the list of
  rows \<open>cursor.execute(query)\<close> and \<open>fetchall()\<close> yield for the query text, or \<open>None\<close>
  when they raise. The columns of a row are texts, as the store step writes them.
\<close>

record solution_row =
  row_id :: int
  row_task_id :: "string option"
  row_language :: string
  row_code :: string
  row_error_type :: string
  row_hint :: string

record database =
  connect :: "string option"
  execute :: "string \<Rightarrow> solution_row list option"

record solution =
  sol_id :: int
  sol_task_id :: "string option"
  sol_code :: string
  sol_error_type :: string
  sol_hint :: string
  sol_score :: real

definition pattern_condition :: "string \<Rightarrow> string list" where
  "pattern_condition pattern =
     (if py_in '':'' pattern then
        (if pattern_key pattern = ''function_def''
           then [''code LIKE '' @ [CHR 0x27] @ ''%def '' @ pattern_value pattern @ ''%''
                   @ [CHR 0x27]]
         else if pattern_key pattern = ''var_assignment''
           then [''code LIKE '' @ [CHR 0x27] @ ''%'' @ pattern_value pattern @ '' = %''
                   @ [CHR 0x27]]
         else [])
      else [''code LIKE '' @ [CHR 0x27] @ ''%'' @ pattern @ ''%'' @ [CHR 0x27]])"

definition build_query :: "string list \<Rightarrow> string \<Rightarrow> string option \<Rightarrow> string \<Rightarrow> string" where
  "build_query patterns language task_id error_msg =
     (let pattern_conditions = concat (map pattern_condition patterns);
          where_clause = ''language = '' @ [CHR 0x27] @ language @ [CHR 0x27];
          where_clause = where_clause @
            (case task_id of
               None \<Rightarrow> []
             | Some t \<Rightarrow> if t \<noteq> [] then '' AND task_id = '' @ [CHR 0x27] @ t @ [CHR 0x27]
                         else []);
          where_clause = where_clause @
            (if error_msg \<noteq> []
             then '' AND error_type LIKE '' @ [CHR 0x27] @ ''%'' @ take 20 error_msg @ ''%''
                    @ [CHR 0x27]
             else []);
          where_clause = where_clause @
            (if pattern_conditions \<noteq> []
             then '' AND ('' @ py_join '' OR '' (take 3 pattern_conditions) @ '')''
             else [])
      in [CHR 0x0A] @ ''            SELECT id, task_id, language, code, error_type, hint''
         @ [CHR 0x0A] @ ''            FROM rag_solutions''
         @ [CHR 0x0A] @ ''            WHERE '' @ where_clause
         @ [CHR 0x0A] @ ''            ORDER BY created_at DESC''
         @ [CHR 0x0A] @ ''            LIMIT 5''
         @ [CHR 0x0A] @ ''        '')"

definition to_solution :: "string list \<Rightarrow> solution_row \<Rightarrow> solution" where
  "to_solution patterns row =
     \<lparr>sol_id = row_id row, sol_task_id = row_task_id row,
      sol_code = (if length (row_code row) > 200 then take 200 (row_code row) @ ''...''
                  else row_code row),
      sol_error_type = row_error_type row, sol_hint = row_hint row,
      sol_score = calculate_pattern_match_score patterns (row_code row)\<rparr>"

text \<open>
  The candidates with a score above 0.1, by descending score; the sort is stable, as
  \<open>list.sort(reverse=True)\<close> is.
\<close>

definition rank_solutions :: "string list \<Rightarrow> solution_row list \<Rightarrow> solution list" where
  "rank_solutions patterns rows =
     sort_key (\<lambda>s. - sol_score s)
       (filter (\<lambda>s. sol_score s > 1 / 10) (map (to_solution patterns) rows))"

text \<open>\<open>Inl\<close> is the exception that leaves \<open>_search_by_patterns\<close>.\<close>

definition search_by_patterns ::
  "database \<Rightarrow> string list \<Rightarrow> string \<Rightarrow> string option \<Rightarrow> string \<Rightarrow> string + solution list" where
  "search_by_patterns db patterns language task_id error_msg =
     (case connect db of
        Some msg \<Rightarrow> Inl msg
      | None \<Rightarrow>
          if patterns = [] then Inr []
          else let rows = (case execute db (build_query patterns language task_id error_msg) of
                             None \<Rightarrow> []
                           | Some rows \<Rightarrow> rows)
               in Inr (rank_solutions patterns rows))"

subsection \<open>\_generate\_rule\_based\_hint\<close>

definition python_rules :: "string list" where
  "python_rules =
     [''1. Check for syntax errors (missing colons, parentheses)'',
      ''2. Verify indentation (use 4 spaces)'',
      ''3. Make sure variables are defined before use'',
      ''4. Check function names and arguments'',
      ''5. Use print() to debug variable values'']"

text \<open>\<open>rules.get(language)\<close>\<close>

definition rules :: "string \<Rightarrow> string list option" where
  "rules language =
     (if language = ''python'' then Some python_rules
      else if language = ''java'' then Some
        [''1. Check for missing semicolons ;'',
         ''2. Verify braces {} are balanced'',
         ''3. Make sure class and method names match'',
         ''4. Check variable types'',
         ''5. Ensure proper imports'']
      else if language = ''javascript'' then Some
        [''1. Check console for errors'',
         ''2. Verify variable declarations (let/const/var)'',
         ''3. Check function definitions and calls'',
         ''4. Look for undefined variables'',
         ''5. Check bracket/parenthesis matching'']
      else if language = ''c'' then Some
        [''1. Check #include statements'',
         ''2. Verify semicolons after statements'',
         ''3. Check function prototypes'',
         ''4. Look for uninitialized variables'',
         ''5. Check pointer usage'']
      else None)"

definition generate_rule_based_hint :: "string \<Rightarrow> string \<Rightarrow> string \<Rightarrow> string" where
  "generate_rule_based_hint error_msg language code =
     (let hint = ''Debugging '' @ language @ '' code:'' @ [CHR 0x0A];
          lang_rules = (case rules language of
                          None \<Rightarrow> python_rules
                        | Some r \<Rightarrow> r);
          hint = hint @ py_join [CHR 0x0A] lang_rules
      in if py_in ''sum'' (py_lower code) \<and> py_in ''pass'' code
         then hint @ [CHR 0x0A, CHR 0x0A]
                @ ''For sum function: Implement the loop or use sum() function''
         else hint)"

subsection \<open>\_generate\_pattern\_based\_hint\<close>

text \<open>
  The bullet that opens the advice lines is the character U+2022, outside the range of
  the text model; it stands here as its three UTF-8 bytes, and nothing inspects it.
\<close>

definition bullet :: string where
  "bullet = [CHR 0xE2, CHR 0x80, CHR 0xA2]"

text \<open>\<open>f"{score:.0%}"\<close>: one hundred times the score, to the nearest integer, a tie to the
  even one, and a percent sign.\<close>

definition format_percent :: "real \<Rightarrow> string" where
  "format_percent score =
     (let y = score * 100; f = \<lfloor>y\<rfloor>; r = y - of_int f
      in str_int (if r < 1 / 2 then f else if r > 1 / 2 then f + 1
                  else if even f then f else f + 1) @ ''%'')"

definition generate_pattern_based_hint :: "string \<Rightarrow> string \<Rightarrow> solution list \<Rightarrow> string" where
  "generate_pattern_based_hint student_code error_msg similar_solutions =
     (case similar_solutions of
        [] \<Rightarrow> generate_rule_based_hint error_msg ''python'' student_code
      | best_match # _ \<Rightarrow>
          (let error_lower = py_lower error_msg;
               hint_parts =
                 [''Found similar code pattern ('' @ format_percent (sol_score best_match)
                    @ '' match):'']
                 @ (if py_in ''syntax'' error_lower \<or> py_in ''invalid'' error_lower
                    then [bullet @ '' Check syntax: parentheses, brackets, colons'',
                          bullet @ '' Verify indentation is consistent'']
                    else [])
                 @ (if py_in ''not defined'' error_lower \<or> py_in ''name'' error_lower
                    then [bullet @ '' Check variable/function names for typos'',
                          bullet @ '' Make sure variables are declared before use'']
                    else [])
                 @ (if py_in ''index'' error_lower
                    then [bullet @ '' Check array/list bounds'',
                          bullet @ '' Remember indices start at 0'']
                    else [])
                 @ (if py_in ''pass'' student_code
                    then [bullet @ '' Replace '' @ [CHR 0x27] @ ''pass'' @ [CHR 0x27]
                            @ '' with actual implementation'']
                    else [])
                 @ (if sol_hint best_match \<noteq> []
                    then [[CHR 0x0A] @ ''Related hint from similar code:'',
                          [CHR 0x22] @ take 200 (sol_hint best_match) @ ''...'' @ [CHR 0x22]]
                    else [])
           in py_join [CHR 0x0A] hint_parts))"

subsection \<open>\_store\_solution\_patterns and generate\_hint\<close>

text \<open>
  The row the store step asks the database to insert. Its columns \<open>embedding_hash\<close> (the
  interpreter's salted \<open>hash\<close>) and \<open>common_patterns\<close>, the row id the database assigns and
  the updates of the pattern counters are left out. The store step catches every
  exception itself.
\<close>

definition stored_row :: "string \<Rightarrow> string \<Rightarrow> string \<Rightarrow> string option \<Rightarrow> string \<Rightarrow> solution_row" where
  "stored_row code error_msg language task_id hint =
     \<lparr>row_id = 0, row_task_id = task_id, row_language = language,
      row_code = take 1000 code,
      row_error_type = (if error_msg \<noteq> [] then take 100 error_msg else ''no_error''),
      row_hint = take 500 hint\<rparr>"

record hint_result =
  hint :: string
  hint_similarity_score :: real
  similar_solutions :: "solution list"
  rag_used :: bool
  patterns_found :: "nat option"
  hint_error :: "string option"

text \<open>
  \<open>generate_hint\<close> returns its dictionary; the second component is the rows it hands to the
  database to insert.
\<close>

definition generate_hint ::
  "database \<Rightarrow> string \<Rightarrow> string \<Rightarrow> string \<Rightarrow> string option
     \<Rightarrow> hint_result \<times> solution_row list" where
  "generate_hint db student_code error_msg language task_id =
     (let patterns = extract_patterns student_code language
      in case search_by_patterns db patterns language task_id error_msg of
           Inl msg \<Rightarrow>
             (\<lparr>hint = generate_rule_based_hint error_msg language student_code,
               hint_similarity_score = 0, similar_solutions = [], rag_used = False,
               patterns_found = None, hint_error = Some msg\<rparr>, [])
         | Inr similar \<Rightarrow>
             (let h = generate_pattern_based_hint student_code error_msg similar
              in (\<lparr>hint = h,
                   hint_similarity_score =
                     (case similar of [] \<Rightarrow> 0 | best # _ \<Rightarrow> sol_score best),
                   similar_solutions = take 2 similar, rag_used = True,
                   patterns_found = Some (length patterns), hint_error = None\<rparr>,
                  [stored_row student_code error_msg language task_id h])))"

text \<open>Databases for the examples: one that holds the given rows for every query, and
  one that cannot be opened.\<close>

definition holding_database :: "solution_row list \<Rightarrow> database" where
  "holding_database rows = \<lparr>connect = None, execute = (\<lambda>query. Some rows)\<rparr>"

definition closed_database :: database where
  "closed_database =
     \<lparr>connect = Some ''unable to open database file'', execute = (\<lambda>query. None)\<rparr>"

section \<open>Theorems\<close>

subsection \<open>Error classifier\<close>

lemma py_in_nonempty: "py_in (c # cs) hay \<Longrightarrow> hay \<noteq> []"
  by (cases hay) auto

lemma first_match_unfold:
  "first_match t =
    (if py_in ''indexerror'' t \<or> py_in ''arrayindexoutofbounds'' t then Some ''IndexError''
     else if py_in ''syntaxerror'' t then Some ''SyntaxError''
     else if py_in ''nameerror'' t \<or> py_in ''cannot find symbol'' t then Some ''NameError''
     else if py_in ''typeerror'' t then Some ''TypeError''
     else if py_in ''indentationerror'' t then Some ''IndentationError''
     else if py_in ''zerodivisionerror'' t \<or> py_in ''divide by zero'' t
       then Some ''ZeroDivisionError''
     else if py_in ''keyerror'' t then Some ''KeyError''
     else if py_in ''attributeerror'' t then Some ''AttributeError''
     else if py_in ''valueerror'' t then Some ''ValueError''
     else if py_in ''timeout'' t then Some ''TimeoutError''
     else if py_in ''off by one'' t \<or> (py_in ''index'' t \<and> py_in ''range'' t)
       then Some ''off_by_one''
     else if py_in ''missing return'' t \<or> py_in ''does not return'' t
       then Some ''missing_return''
     else if py_in ''infinite loop'' t \<or> py_in ''while true'' t then Some ''infinite_loop''
     else None)"
  unfolding first_match_def priority_rules_def
  by (simp only: find.simps rule_matches_def fst_conv snd_conv list_ex_Nil_iff list_ex_Cons_iff
       list_all_Nil_iff list_all_Cons_iff simp_thms option.map if_distrib [of "map_option snd"] cong: if_cong)

lemma classify_first_match_eq:
  "msg \<noteq> [] \<Longrightarrow> classify_error msg =
     (case first_match (py_lower msg) of Some k \<Rightarrow> k
      | None \<Rightarrow> (case py_split (py_strip msg) [CHR 0x0A] of
               [] \<Rightarrow> ''RuntimeError''
             | first_line # _ \<Rightarrow>
                 if py_in '':'' first_line
                 then (case py_split first_line '':'' of [] \<Rightarrow> [] | kind # _ \<Rightarrow> kind)
                 else ''RuntimeError''))"
  unfolding first_match_unfold classify_error_def Let_def
  by (simp only: if_distrib [of "case_option _ _"] option.case if_False)

text \<open>
  C2 (as amended). A text whose lower-cased form contains \<open>syntaxerror\<close> and neither
  \<open>indexerror\<close> nor \<open>arrayindexoutofbounds\<close> classifies as \<open>SyntaxError\<close>, whatever else
  it contains (the word \<open>index\<close> included). For every non-empty text the
  classification is the kind of the first rule of the fixed priority list that matches the
  lower-cased text; the \<open>IndexError\<close> rule stands before the \<open>SyntaxError\<close> rule.
\<close>

theorem classify_error_priority:
  "(py_in ''syntaxerror'' (py_lower msg)
      \<and> \<not> py_in ''indexerror'' (py_lower msg)
      \<and> \<not> py_in ''arrayindexoutofbounds'' (py_lower msg)
      \<longrightarrow> classify_error msg = ''SyntaxError'')
   \<and> (msg \<noteq> [] \<longrightarrow> (\<forall>kind. first_match (py_lower msg) = Some kind
         \<longrightarrow> classify_error msg = kind))"
proof (intro conjI impI allI)
  assume h: "py_in ''syntaxerror'' (py_lower msg)
      \<and> \<not> py_in ''indexerror'' (py_lower msg)
      \<and> \<not> py_in ''arrayindexoutofbounds'' (py_lower msg)"
  then have "py_lower msg \<noteq> []"
    using py_in_nonempty by blast
  then have "msg \<noteq> []"
    by (simp add: py_lower_def)
  with h show "classify_error msg = ''SyntaxError''"
    by (simp add: classify_error_def Let_def)
next
  fix kind
  assume ne: "msg \<noteq> []" and fm: "first_match (py_lower msg) = Some kind"
  then show "classify_error msg = kind"
    by (simp add: classify_first_match_eq)
qed

theorem classify_error_priority_witness:
  "py_in ''syntaxerror'' (py_lower ''SyntaxError: invalid index expression'')
   \<and> \<not> py_in ''indexerror'' (py_lower ''SyntaxError: invalid index expression'')
   \<and> \<not> py_in ''arrayindexoutofbounds'' (py_lower ''SyntaxError: invalid index expression'')
   \<and> ''SyntaxError: invalid index expression'' \<noteq> []
   \<and> first_match (py_lower ''SyntaxError: invalid index expression'') = Some ''SyntaxError''
   \<and> classify_error ''SyntaxError: invalid index expression'' = ''SyntaxError''"
proof -
  have h: "py_in ''syntaxerror'' (py_lower ''SyntaxError: invalid index expression'')
      \<and> \<not> py_in ''indexerror'' (py_lower ''SyntaxError: invalid index expression'')
      \<and> \<not> py_in ''arrayindexoutofbounds'' (py_lower ''SyntaxError: invalid index expression'')"
    by code_simp
  have f: "first_match (py_lower ''SyntaxError: invalid index expression'') = Some ''SyntaxError''"
    by code_simp
  from h f classify_error_priority [of "''SyntaxError: invalid index expression''"]
  show ?thesis by simp
qed

text \<open>
  C2 (as stated) fails: a text that contains both \<open>SyntaxError\<close> and \<open>index\<close> is
  classified \<open>IndexError\<close> when the occurrence of \<open>index\<close> is part of \<open>IndexError\<close>.
\<close>

theorem classify_error_syntax_index_counterexample:
  "py_in ''syntaxerror'' (py_lower ''SyntaxError while handling IndexError'')
   \<and> py_in ''index'' (py_lower ''SyntaxError while handling IndexError'')
   \<and> classify_error ''SyntaxError while handling IndexError'' = ''IndexError''
   \<and> classify_error ''SyntaxError while handling IndexError'' \<noteq> ''SyntaxError''"
  by code_simp

subsection \<open>The sequence matcher: blocks stay in their windows\<close>

lemma fold_invariant:
  "P s \<Longrightarrow> (\<And>x s. x \<in> set xs \<Longrightarrow> P s \<Longrightarrow> P (f x s)) \<Longrightarrow> P (fold f xs s)"
  by (induction xs arbitrary: s) auto

lemma inner_step_ok:
  assumes g: "row_ok n blo g" and j: "blo \<le> j" "j < bhi" and i: "alo + n = i" 
    and s: "row_ok (Suc n) blo (fst s)" "in_window alo (Suc i) blo bhi (snd s)"
  shows "row_ok (Suc n) blo (fst (inner_step i g j s)) \<and>
         in_window alo (Suc i) blo bhi (snd (inner_step i g j s))"
proof -
  obtain h bi bj bs where s_eq: "s = (h, bi, bj, bs)"
    by (cases s) auto
  define k where "k = (if j = 0 then 0 else g (j - 1)) + 1"
  have k1: "k \<le> Suc n"
    using g by (auto simp: k_def row_ok_def)
  have "g (j - 1) \<le> (j - 1) + 1 - blo"
    using g by (simp add: row_ok_def)
  then have "j \<noteq> 0 \<Longrightarrow> g (j - 1) \<le> j - blo"
    by simp
  then have k2: "k \<le> j + 1 - blo"
    using j by (auto simp: k_def)
  have "row_ok (Suc n) blo (h(j := k))"
    using s(1) k1 k2 by (auto simp: row_ok_def s_eq)
  moreover have "0 < k"
    by (simp add: k_def)
  then have "in_window alo (Suc i) blo bhi (i + 1 - k, j + 1 - k, k)"
    using k1 k2 j i by (auto simp: in_window_def)
  moreover have eq: "inner_step i g j s =
      (h(j := k), if k > bs then (i + 1 - k, j + 1 - k, k) else (bi, bj, bs))"
    by (simp add: inner_step_def s_eq k_def Let_def)
  ultimately show ?thesis
    unfolding eq using s(2) by (simp add: s_eq)
qed

lemma in_window_mono:
  "in_window alo ahi blo bhi blk \<Longrightarrow> ahi \<le> ahi' \<Longrightarrow> in_window alo ahi' blo bhi blk"
  by (auto simp: in_window_def)

lemma outer_step_ok:
  assumes g: "row_ok n blo (fst s)" and i: "alo + n = i"
    and w: "in_window alo i blo bhi (snd s)"
  shows "row_ok (Suc n) blo (fst (outer_step a b blo bhi i s)) \<and>
         in_window alo (Suc i) blo bhi (snd (outer_step a b blo bhi i s))"
proof -
  obtain g0 best where s_eq: "s = (g0, best)"
    by (cases s) auto
  let ?P = "\<lambda>t. row_ok (Suc n) blo (fst t) \<and> in_window alo (Suc i) blo bhi (snd t)"
  have "?P (fold (inner_step i g0) (filter (\<lambda>j. blo \<le> j \<and> j < bhi) (b2j b (a ! i)))
          (\<lambda>_. 0, best))"
  proof (rule fold_invariant)
    show "?P (\<lambda>_. 0, best)"
      using w by (auto simp: row_ok_def s_eq intro: in_window_mono)
  next
    fix x t
    assume "x \<in> set (filter (\<lambda>j. blo \<le> j \<and> j < bhi) (b2j b (a ! i)))" and "?P t"
    then show "?P (inner_step i g0 x t)"
      using inner_step_ok [of n blo g0 x bhi alo i t] g i by (simp add: s_eq)
  qed
  then show ?thesis
    by (simp add: outer_step_def s_eq)
qed

lemma outer_fold_ok:
  "row_ok n blo (fst (fold (outer_step a b blo bhi) [alo..<alo + n] (\<lambda>_. 0, (alo, blo, 0)))) \<and>
   in_window alo (alo + n) blo bhi
     (snd (fold (outer_step a b blo bhi) [alo..<alo + n] (\<lambda>_. 0, (alo, blo, 0))))"
proof (induction n)
  case 0
  show ?case by (simp add: row_ok_def in_window_def)
next
  case (Suc n)
  define s where "s = fold (outer_step a b blo bhi) [alo..<alo + n] (\<lambda>_. 0, (alo, blo, 0))"
  have step: "fold (outer_step a b blo bhi) [alo..<alo + Suc n] (\<lambda>_. 0, (alo, blo, 0))
      = outer_step a b blo bhi (alo + n) s"
    by (simp add: s_def)
  have "row_ok n blo (fst s)" and "in_window alo (alo + n) blo bhi (snd s)"
    using Suc by (simp_all add: s_def)
  then have "row_ok (Suc n) blo (fst (outer_step a b blo bhi (alo + n) s)) \<and>
         in_window alo (Suc (alo + n)) blo bhi (snd (outer_step a b blo bhi (alo + n) s))"
    by (intro outer_step_ok) simp_all
  then show ?case
    unfolding step by simp
qed

lemma longest_indexed_in_window:
  "in_window alo (max alo ahi) blo bhi (longest_indexed a b alo ahi blo bhi)"
proof (cases "alo \<le> ahi")
  case True
  then obtain n where "ahi = alo + n"
    using le_Suc_ex by blast
  then show ?thesis
    using outer_fold_ok [of n blo a b bhi alo] by (simp add: longest_indexed_def max_def)
next
  case False
  then show ?thesis
    by (simp add: longest_indexed_def in_window_def)
qed

declare extend_left.simps [simp del] extend_right.simps [simp del]

lemma extend_left_in_window:
  "in_window alo ahi blo bhi blk \<Longrightarrow> in_window alo ahi blo bhi (extend_left a b alo blo blk)"
proof (induction a b alo blo blk rule: extend_left.induct)
  case (1 a b alo blo besti bestj bestsize)
  show ?case
  proof (cases "besti > alo \<and> bestj > blo \<and> a ! (besti - 1) = b ! (bestj - 1)")
    case True
    have "in_window alo ahi blo bhi (besti - 1, bestj - 1, bestsize + 1)"
      using True "1.prems" by (auto simp: in_window_def split: if_splits)
    then show ?thesis
      using True "1.IH" by (subst extend_left.simps) simp
  next
    case False
    then show ?thesis
      using "1.prems" by (subst extend_left.simps) auto
  qed
qed

lemma extend_right_in_window:
  "in_window alo ahi blo bhi blk \<Longrightarrow> in_window alo ahi blo bhi (extend_right a b ahi bhi blk)"
proof (induction a b ahi bhi blk rule: extend_right.induct)
  case (1 a b ahi bhi besti bestj bestsize)
  show ?case
  proof (cases "besti + bestsize < ahi \<and> bestj + bestsize < bhi
         \<and> a ! (besti + bestsize) = b ! (bestj + bestsize)")
    case True
    have "in_window alo ahi blo bhi (besti, bestj, bestsize + 1)"
      using True "1.prems" by (auto simp: in_window_def split: if_splits)
    then show ?thesis
      using True "1.IH" by (subst extend_right.simps) simp
  next
    case False
    then show ?thesis
      using "1.prems" by (subst extend_right.simps) auto
  qed
qed

lemma find_longest_match_in_window:
  "in_window alo ahi blo bhi (find_longest_match a b alo ahi blo bhi)"
proof -
  have "in_window alo ahi blo bhi (longest_indexed a b alo ahi blo bhi)"
  proof (cases "alo \<le> ahi")
    case True
    then show ?thesis
      using longest_indexed_in_window [of alo ahi blo bhi a b] by (simp add: max_def)
  next
    case False
    then show ?thesis
      by (simp add: longest_indexed_def in_window_def)
  qed
  then show ?thesis
    unfolding find_longest_match_def
    by (intro extend_right_in_window extend_left_in_window)
qed

lemma find_longest_match_bounds:
  assumes "find_longest_match a b alo ahi blo bhi = (i, j, k)" and "k \<noteq> 0"
  shows "alo \<le> i \<and> i + k \<le> ahi \<and> blo \<le> j \<and> j + k \<le> bhi"
  using find_longest_match_in_window [of alo ahi blo bhi a b] assms
  by (simp add: in_window_def)

lemma find_longest_match_bounds_sym:
  "(i, j, k) = find_longest_match a b alo ahi blo bhi \<Longrightarrow> k \<noteq> 0 \<Longrightarrow>
     alo \<le> i \<and> i + k \<le> ahi \<and> blo \<le> j \<and> j + k \<le> bhi"
  using find_longest_match_bounds [of a b alo ahi blo bhi i j k] by simp

termination matching_blocks
  apply (relation "measure (\<lambda>(a, b, alo, ahi, blo, bhi). ahi - alo)")
    apply simp
   apply (auto dest!: find_longest_match_bounds_sym)
  done

declare matching_blocks.simps [simp del]

lemma matching_blocks_total:
  "sum_list (map (\<lambda>(i, j, k). k) (matching_blocks a b alo ahi blo bhi))
     \<le> min (ahi - alo) (bhi - blo)"
proof (induction a b alo ahi blo bhi rule: matching_blocks.induct)
  case (1 a b alo ahi blo bhi)
  obtain i j k where f: "find_longest_match a b alo ahi blo bhi = (i, j, k)"
    by (cases "find_longest_match a b alo ahi blo bhi") auto
  let ?tot = "\<lambda>alo ahi blo bhi.
     sum_list (map (\<lambda>(i, j, k). k) (matching_blocks a b alo ahi blo bhi))"
  show ?case
  proof (cases "k = 0")
    case True
    then show ?thesis
      by (subst matching_blocks.simps) (simp add: f)
  next
    case False
    then have bnd: "alo \<le> i \<and> i + k \<le> ahi \<and> blo \<le> j \<and> j + k \<le> bhi"
      using find_longest_match_bounds [OF f] by simp
    have left: "?tot alo i blo j \<le> min (i - alo) (j - blo)" if "alo < i \<and> blo < j"
      using "1.IH"(1) [OF f [symmetric] refl False that] by simp
    have right: "?tot (i + k) ahi (j + k) bhi \<le> min (ahi - (i + k)) (bhi - (j + k))"
      if "i + k < ahi \<and> j + k < bhi"
      using "1.IH"(2) [OF f [symmetric] refl False that] by simp
    define L where "L = (if alo < i \<and> blo < j then matching_blocks a b alo i blo j else [])"
    define R where "R = (if i + k < ahi \<and> j + k < bhi
                then matching_blocks a b (i + k) ahi (j + k) bhi else [])"
    have mb: "matching_blocks a b alo ahi blo bhi = L @ [(i, j, k)] @ R"
      by (subst matching_blocks.simps) (simp add: f False L_def R_def)
    have sl: "sum_list (map (\<lambda>(i, j, k). k) L) \<le> min (i - alo) (j - blo)"
      using left by (cases "alo < i \<and> blo < j") (auto simp: L_def)
    have sr: "sum_list (map (\<lambda>(i, j, k). k) R) \<le> min (ahi - (i + k)) (bhi - (j + k))"
      using right by (cases "i + k < ahi \<and> j + k < bhi") (auto simp: R_def)
    have "?tot alo ahi blo bhi =
        sum_list (map (\<lambda>(i, j, k). k) L) + k + sum_list (map (\<lambda>(i, j, k). k) R)"
      by (simp add: mb)
    also have "\<dots> \<le> min (ahi - alo) (bhi - blo)"
      using sl sr bnd by (simp, arith)
    finally show ?thesis .
  qed
qed

lemma ratio_range: "0 \<le> ratio a b \<and> ratio a b \<le> 1"
proof -
  define m where "m = sum_list (map (\<lambda>(i, j, k). k) (matching_blocks a b 0 (length a) 0 (length b)))"
  have "m \<le> min (length a) (length b)"
    using matching_blocks_total [of a b 0 "length a" 0 "length b"] by (simp add: m_def)
  then have "2 * m \<le> length a + length b"
    by simp
  then have "2 * real m \<le> real (length a + length b)"
    by (metis of_nat_le_iff of_nat_mult of_nat_numeral)
  then show ?thesis
    unfolding ratio_def Let_def m_def [symmetric]
    by (auto simp: divide_le_eq_1)
qed

subsection \<open>Structural and lexical similarity\<close>

lemma structure_range:
  "0 \<le> check_structure_match a b \<and> check_structure_match a b \<le> 1"
proof -
  define m where "m = max (max (count_elements a) (count_elements b)) 1"
  define d where "d = \<bar>int (count_elements a) - int (count_elements b)\<bar>"
  have "d \<le> int m" and "0 \<le> d" and "0 < m"
    unfolding m_def d_def by auto
  then have "0 \<le> real_of_int d / real m" and "real_of_int d / real m \<le> 1"
    by (auto simp: divide_le_eq_1 intro: divide_nonneg_nonneg)
  then show ?thesis
    unfolding check_structure_match_def Let_def m_def [symmetric] d_def [symmetric]
    by auto
qed

text \<open>
  C5 (as amended). The structural score is \<open>1 - |c1 - c2| / max(c1, c2, 1)\<close>, where
  \<open>c\<close> counts how many of the eight fixed substrings (\<open>def\<close>, \<open>if\<close>, \<open>for\<close>,
  \<open>while\<close>, \<open>return\<close>, \<open>import\<close>, \<open>from\<close>, \<open>class\<close>, each followed by a space)
  occur in the body at least once, every one counted once however often it occurs; it is
  1 when both counts are zero, always lies in [0, 1], and is 1 for a body against itself.
\<close>

theorem check_structure_match_formula:
  "check_structure_match a b =
     1 - real_of_int \<bar>int (count_elements a) - int (count_elements b)\<bar>
           / real (max (max (count_elements a) (count_elements b)) 1)
   \<and> (count_elements a = 0 \<and> count_elements b = 0 \<longrightarrow> check_structure_match a b = 1)
   \<and> count_elements a \<le> 8
   \<and> 0 \<le> check_structure_match a b \<and> check_structure_match a b \<le> 1
   \<and> check_structure_match a a = 1"
proof -
  have "count_elements a \<le> 8"
    unfolding count_elements_def
    by (rule order_trans [OF length_filter_le]) (simp add: elements_def)
  moreover have "check_structure_match a a = 1"
    by (simp add: check_structure_match_def Let_def)
  moreover have "check_structure_match a b =
     1 - real_of_int \<bar>int (count_elements a) - int (count_elements b)\<bar>
           / real (max (max (count_elements a) (count_elements b)) 1)"
    by (simp add: check_structure_match_def Let_def)
  moreover have "count_elements a = 0 \<and> count_elements b = 0 \<longrightarrow> check_structure_match a b = 1"
    by (simp add: check_structure_match_def Let_def)
  ultimately show ?thesis
    using structure_range [of a b] by blast
qed

theorem check_structure_match_formula_witness:
  "count_elements ''x = 1'' = 0 \<and> count_elements ''y = 2'' = 0
   \<and> check_structure_match ''x = 1'' ''y = 2'' = 1
   \<and> check_structure_match ''if a: return b '' ''for i in a: x'' = 1 / 2"
proof -
  have c: "count_elements ''x = 1'' = 0 \<and> count_elements ''y = 2'' = 0"
    by code_simp
  have d: "count_elements ''if a: return b '' = 2 \<and> count_elements ''for i in a: x'' = 1"
    by code_simp
  show ?thesis
    using c d check_structure_match_formula [of "''x = 1''" "''y = 2''"]
      check_structure_match_formula [of "''if a: return b ''" "''for i in a: x''"]
    by simp
qed

text \<open>
  C5 (as stated) fails: with counts of occurrences, a body with two \<open>if\<close> statements
  against a body with one scores 1/2, and the code scores 1.
\<close>

theorem structure_occurrences_counterexample:
  "check_structure_match ''if a: if b: x'' ''if a: x'' = 1
   \<and> spec_structural ''if a: if b: x'' ''if a: x'' = 1 / 2
   \<and> check_structure_match ''if a: if b: x'' ''if a: x''
       \<noteq> spec_structural ''if a: if b: x'' ''if a: x''"
proof -
  have c: "count_elements ''if a: if b: x'' = 1 \<and> count_elements ''if a: x'' = 1"
    by code_simp
  have s: "spec_keyword_count ''if a: if b: x'' = 2 \<and> spec_keyword_count ''if a: x'' = 1"
    by code_simp
  show ?thesis
    using c s by (simp add: check_structure_match_def spec_structural_def Let_def)
qed

lemma syntax_sym: "check_syntax_match a b = check_syntax_match b a"
  by (simp add: check_syntax_match_def Let_def Int_commute Un_commute disj_commute)

lemma syntax_refl:
  assumes "word_tokens (normalize_code a) \<noteq> []"
  shows "check_syntax_match a a = 1"
proof -
  have "card (set (word_tokens (normalize_code a))) > 0"
    using assms by (simp add: card_gt_0_iff)
  with assms show ?thesis
    by (simp add: check_syntax_match_def Let_def)
qed

text \<open>
  C6 (as amended). The lexical similarity is symmetric, and it is 1 for a text against
  itself whenever the normalized text holds at least one word token.
\<close>

theorem check_syntax_match_symmetric:
  "check_syntax_match a b = check_syntax_match b a
   \<and> (word_tokens (normalize_code a) \<noteq> [] \<longrightarrow> check_syntax_match a a = 1)"
  using syntax_sym syntax_refl by blast

theorem check_syntax_match_symmetric_witness:
  "word_tokens (normalize_code ''total = total + x'') \<noteq> []
   \<and> check_syntax_match ''total = total + x'' ''total = total + x'' = 1
   \<and> check_syntax_match ''total = total + x'' ''s = s + x''
       = check_syntax_match ''s = s + x'' ''total = total + x''"
proof -
  have t: "word_tokens (normalize_code ''total = total + x'') \<noteq> []"
    by code_simp
  show ?thesis
    using t check_syntax_match_symmetric [of "''total = total + x''" "''s = s + x''"]
    by simp
qed

text \<open>
  C6 (as stated) fails: a non-empty text without a word token (a comment line) has lexical
  similarity 0 with itself.
\<close>

theorem lexical_counterexample:
  "''# todo'' \<noteq> [] \<and> check_syntax_match ''# todo'' ''# todo'' = 0
   \<and> check_syntax_match ''# todo'' ''# todo'' \<noteq> 1"
proof -
  have "word_tokens (normalize_code ''# todo'') = []"
    by code_simp
  then show ?thesis
    by (simp add: check_syntax_match_def Let_def)
qed


subsection \<open>Output similarity\<close>

lemma compare_outputs_range: "0 \<le> compare_outputs a b \<and> compare_outputs a b \<le> 1"
  using ratio_range by (simp add: compare_outputs_def Let_def)

text \<open>
  C4 (as amended). The output similarity is 0 when either captured output is empty. For
  two non-empty outputs, normalized by trimming and lower-casing: it is 1 when the
  normalized texts are equal; otherwise 0.8 when the normalized texts hold a numeric
  token and their numeric-token sequences are equal, whatever other text they hold;
  otherwise the sequence matcher's ratio of the normalized texts. It always lies in
  [0, 1].
\<close>

theorem compare_outputs_cases:
  "(output1 = [] \<or> output2 = [] \<longrightarrow> compare_outputs output1 output2 = 0)
   \<and> (output1 \<noteq> [] \<and> output2 \<noteq> []
        \<and> py_lower (py_strip output1) = py_lower (py_strip output2)
      \<longrightarrow> compare_outputs output1 output2 = 1)
   \<and> (output1 \<noteq> [] \<and> output2 \<noteq> []
        \<and> py_lower (py_strip output1) \<noteq> py_lower (py_strip output2)
        \<and> numeric_tokens (py_lower (py_strip output1)) \<noteq> []
        \<and> numeric_tokens (py_lower (py_strip output1))
            = numeric_tokens (py_lower (py_strip output2))
      \<longrightarrow> compare_outputs output1 output2 = 4 / 5)
   \<and> (output1 \<noteq> [] \<and> output2 \<noteq> []
        \<and> py_lower (py_strip output1) \<noteq> py_lower (py_strip output2)
        \<and> (numeric_tokens (py_lower (py_strip output1)) = []
             \<or> numeric_tokens (py_lower (py_strip output1))
                 \<noteq> numeric_tokens (py_lower (py_strip output2)))
      \<longrightarrow> compare_outputs output1 output2
            = ratio (py_lower (py_strip output1)) (py_lower (py_strip output2)))
   \<and> 0 \<le> compare_outputs output1 output2 \<and> compare_outputs output1 output2 \<le> 1"
  using compare_outputs_range [of output1 output2]
  by (auto simp: compare_outputs_def Let_def)

theorem compare_outputs_cases_witness:
  "compare_outputs [] ''6'' = 0
   \<and> compare_outputs ''Done '' ''done'' = 1
   \<and> compare_outputs ''sum 6'' ''total 6'' = 4 / 5
   \<and> compare_outputs ''abc'' ''abd''
       = ratio (py_lower (py_strip ''abc'')) (py_lower (py_strip ''abd''))
   \<and> compare_outputs ''abc'' ''abd'' = 2 / 3"
proof -
  have h2: "''Done '' \<noteq> [] \<and> ''done'' \<noteq> []
      \<and> py_lower (py_strip ''Done '') = py_lower (py_strip ''done'')"
    by code_simp
  have h3: "''sum 6'' \<noteq> [] \<and> ''total 6'' \<noteq> []
      \<and> py_lower (py_strip ''sum 6'') \<noteq> py_lower (py_strip ''total 6'')
      \<and> numeric_tokens (py_lower (py_strip ''sum 6'')) \<noteq> []
      \<and> numeric_tokens (py_lower (py_strip ''sum 6''))
          = numeric_tokens (py_lower (py_strip ''total 6''))"
    by code_simp
  have h4: "''abc'' \<noteq> [] \<and> ''abd'' \<noteq> []
      \<and> py_lower (py_strip ''abc'') \<noteq> py_lower (py_strip ''abd'')
      \<and> (numeric_tokens (py_lower (py_strip ''abc'')) = []
           \<or> numeric_tokens (py_lower (py_strip ''abc''))
               \<noteq> numeric_tokens (py_lower (py_strip ''abd'')))"
    by code_simp
  have r: "ratio (py_lower (py_strip ''abc'')) (py_lower (py_strip ''abd'')) = 2 / 3"
    by code_simp
  have "compare_outputs [] ''6'' = 0"
    using compare_outputs_cases [of "[]" "''6''"] by blast
  moreover have "compare_outputs ''Done '' ''done'' = 1"
    using h2 compare_outputs_cases [of "''Done ''" "''done''"] by blast
  moreover have "compare_outputs ''sum 6'' ''total 6'' = 4 / 5"
    using h3 compare_outputs_cases [of "''sum 6''" "''total 6''"] by blast
  moreover have "compare_outputs ''abc'' ''abd''
       = ratio (py_lower (py_strip ''abc'')) (py_lower (py_strip ''abd''))"
    using h4 compare_outputs_cases [of "''abc''" "''abd''"] by blast
  ultimately show ?thesis
    using r by simp
qed

text \<open>
  C4 (as stated) fails: two outputs with the same numbers and different words do not
  consist of numeric tokens only, yet they score 0.8 and not their ratio 2/3.
\<close>

theorem compare_outputs_numeric_counterexample:
  "\<not> only_numeric (py_lower (py_strip ''a 1''))
   \<and> compare_outputs ''a 1'' ''b 1'' = 4 / 5
   \<and> ratio (py_lower (py_strip ''a 1'')) (py_lower (py_strip ''b 1'')) = 2 / 3
   \<and> spec_output_similarity ''a 1'' ''b 1'' = 2 / 3
   \<and> compare_outputs ''a 1'' ''b 1'' \<noteq> spec_output_similarity ''a 1'' ''b 1''"
  by code_simp


subsection \<open>The comparison report\<close>


lemma syntax_range: "0 \<le> check_syntax_match a b \<and> check_syntax_match a b \<le> 1"
proof -
  let ?A = "set (word_tokens (normalize_code a))" and ?B = "set (word_tokens (normalize_code b))"
  have "card (?A \<inter> ?B) \<le> card (?A \<union> ?B)"
    by (intro card_mono) auto
  then have "real (card (?A \<inter> ?B)) \<le> real (card (?A \<union> ?B))"
    by simp
  then show ?thesis
    by (auto simp: check_syntax_match_def Let_def divide_le_eq_1)
qed

lemma foldl_add_sum:
  "foldl (\<lambda>score x. score + f x) (a :: real) xs = a + sum_list (map f xs)"
  by (induction xs arbitrary: a) auto

lemma indicator_score_range: "0 \<le> indicator_score s m i"
  by (simp add: indicator_score_def Let_def)

lemma logic_range: "0 \<le> check_logic_match s m l \<and> check_logic_match s m l \<le> 1"
proof -
  have "0 \<le> sum_list (map (indicator_score s m) (logic_indicators l))"
    by (intro sum_list_nonneg) (auto simp: indicator_score_range)
  then show ?thesis
    by (simp add: check_logic_match_def Let_def foldl_add_sum)
qed






lemma py_round2_le:
  assumes "x \<le> 3 / 4"
  shows "py_round2 x \<le> 3 / 4"
proof -
  define y where "y = x * 100"
  define f where "f = \<lfloor>y\<rfloor>"
  have y: "y \<le> 75"
    using assms by (simp add: y_def)
  then have f: "f \<le> 75"
    unfolding f_def by (simp add: floor_le_iff)
  have res: "py_round2 x = of_int (if y - of_int f < 1 / 2 then f
      else if y - of_int f > 1 / 2 then f + 1 else if even f then f else f + 1) / 100"
    by (simp add: py_round2_def Let_def y_def f_def)
  show ?thesis
  proof (cases "f = 75")
    case True
    then have "75 \<le> y"
      using of_int_floor_le [of y] by (simp add: f_def)
    with y have "y - of_int f = 0"
      using True by simp
    then show ?thesis
      unfolding res using True by simp
  next
    case False
    with f have "f + 1 \<le> 75"
      by simp
    then have "real_of_int (if y - of_int f < 1 / 2 then f
      else if y - of_int f > 1 / 2 then f + 1 else if even f then f else f + 1) \<le> 75"
      by (auto simp del: of_int_add) 
    then show ?thesis
      unfolding res by simp
  qed
qed





lemma compare_not_python:
  assumes "language \<noteq> ''python''"
  shows "compare h student manual language fs =
     (\<lparr>syntax_match = check_syntax_match student manual,
       structure_match = check_structure_match student manual,
       logic_match = check_logic_match student manual language,
       output_match = 0,
       similarity_score = calculate_similarity_score student manual,
       student_execution = not_executed, manual_execution = not_executed,
       overall_score = py_round2 (check_syntax_match student manual * (25 / 100)
          + check_structure_match student manual * (25 / 100)
          + check_logic_match student manual language * (25 / 100)),
       grade = calculate_grade (check_syntax_match student manual * (25 / 100)
          + check_structure_match student manual * (25 / 100)
          + check_logic_match student manual language * (25 / 100))\<rparr>, fs)"
  using assms
  by (simp add: compare_def Let_def not_executed_def get_output_def compare_outputs_def)

text \<open>
  C10. For a language other than python, compare runs neither body: both execution
  entries are the fixed dictionary with success false and an empty output, and the file
  system is as before. The output\_match is 0, the overall score is at most 0.75, and the
  grade is C, D or F, also for identical bodies.
\<close>

theorem compare_without_execution:
  assumes "language \<noteq> ''python''"
  shows "student_execution (fst (compare h student manual language fs)) = not_executed
   \<and> manual_execution (fst (compare h student manual language fs)) = not_executed
   \<and> success not_executed = False \<and> exec_output not_executed = Some []
   \<and> snd (compare h student manual language fs) = fs
   \<and> output_match (fst (compare h student manual language fs)) = 0
   \<and> overall_score (fst (compare h student manual language fs)) \<le> 3 / 4
   \<and> (grade (fst (compare h student manual language fs)) = ''C''
        \<or> grade (fst (compare h student manual language fs)) = ''D''
        \<or> grade (fst (compare h student manual language fs)) = ''F'')"
proof -
  define x where "x = check_syntax_match student manual * (25 / 100)
          + check_structure_match student manual * (25 / 100)
          + check_logic_match student manual language * (25 / 100)"
  have "x \<le> 3 / 4"
    using syntax_range [of student manual] structure_range [of student manual]
      logic_range [of student manual language]
    by (simp add: x_def)
  then have "py_round2 x \<le> 3 / 4"
    by (rule py_round2_le)
  moreover have "calculate_grade x = ''C'' \<or> calculate_grade x = ''D'' \<or> calculate_grade x = ''F''"
    using \<open>x \<le> 3 / 4\<close> by (simp add: calculate_grade_def)
  ultimately show ?thesis
    unfolding compare_not_python [OF assms] x_def [symmetric]
    by (simp add: not_executed_def)
qed

theorem compare_without_execution_witness:
  "output_match (fst (compare (printing_host ''6'') ''return 1;'' ''return 1;'' ''java'' {})) = 0
   \<and> snd (compare (printing_host ''6'') ''return 1;'' ''return 1;'' ''java'' {}) = {}
   \<and> overall_score (fst (compare (printing_host ''6'') ''return 1;'' ''return 1;'' ''java'' {}))
       \<le> 3 / 4
   \<and> grade (fst (compare (printing_host ''6'') ''return 1;'' ''return 1;'' ''java'' {})) = ''F''"
proof -
  have n: "''java'' \<noteq> ''python''"
    by simp
  have l: "check_logic_match ''return 1;'' ''return 1;'' ''java'' = 1 / 10"
    by code_simp
  have s: "check_syntax_match ''return 1;'' ''return 1;'' = 1"
    by code_simp
  have st: "check_structure_match ''return 1;'' ''return 1;'' = 1"
    by code_simp
  have "grade (fst (compare (printing_host ''6'') ''return 1;'' ''return 1;'' ''java'' {})) = ''F''"
    unfolding compare_not_python [OF n] by (simp add: l s st calculate_grade_def)
  then show ?thesis
    using compare_without_execution [OF n, of "printing_host ''6''" "''return 1;''" "''return 1;''" "{}"]
    by simp
qed

subsection \<open>Pattern scores and ranking\<close>


lemma pattern_matches_le: "pattern_matches code pattern \<le> 2"
  by (simp add: pattern_matches_def)









subsection \<open>Exit paths of the process runner and of the hint retriever\<close>

lemma execute_local_removes_temp:
  assumes "make_temp h (get_suffix language) code = TempWritten temp_file"
  shows "temp_file \<notin> snd (execute_local h code language fs)"
  using assms by (simp add: execute_local_def local_cleanup_def Let_def)

lemma execute_python_code_completed_removes_temp:
  assumes "make_temp h ''.py'' code = TempWritten temp_file"
    and "run h ''python'' code = Completed returncode out err"
  shows "temp_file \<notin> snd (execute_python_code h code timeout fs)"
  using assms by (simp add: execute_python_code_def)

text \<open>
  C9. The temporary source file is to be removed on every exit path. \<open>_execute_local\<close>
  removes it in its \<open>finally\<close> block; \<open>execute_python_code\<close> removes it only after a
  completed run: on a timeout, and on any other exception of the run, the file stays.
\<close>

theorem execute_python_code_timeout_keeps_temp:
  "snd (execute_python_code (raising_host TimeoutExpired) ''while True: pass'' 5 {})
     = {''/tmp/tmpa1b2c3.py''}
   \<and> error_type (fst (execute_python_code (raising_host TimeoutExpired)
         ''while True: pass'' 5 {})) = Some ''TimeoutError''
   \<and> snd (execute_python_code (raising_host (OtherException ''Permission denied''))
         ''print(1)'' 5 {}) = {''/tmp/tmpa1b2c3.py''}
   \<and> snd (execute_local (raising_host TimeoutExpired) ''while True: pass'' ''python'' {}) = {}"
  by (simp add: execute_python_code_def execute_local_def raising_host_def timeout_result_def
      exception_result_def get_suffix_def local_cleanup_def Let_def)

text \<open>
  C7. A missing interpreter is to be reported as \<open>RuntimeMissing\<close>.
  \<open>execute_javascript_code\<close> does so; \<open>execute_python_code\<close> reports the generic
  \<open>ExecutionError\<close>, and \<open>_execute_local\<close> reports no error kind. None of them raises.
\<close>

theorem execute_python_code_missing_interpreter:
  "success (fst (execute_python_code
       (raising_host (FileNotFoundError ''[Errno 2] No such file or directory: python''))
       ''print(1)'' 5 {})) = False
   \<and> error_type (fst (execute_python_code
       (raising_host (FileNotFoundError ''[Errno 2] No such file or directory: python''))
       ''print(1)'' 5 {})) = Some ''ExecutionError''
   \<and> error_type (fst (execute_javascript_code
       (raising_host (FileNotFoundError ''[Errno 2] No such file or directory: node''))
       ''console.log(1)'' 5 {})) = Some ''RuntimeMissing''
   \<and> error_type (fst (execute_local
       (raising_host (FileNotFoundError ''[Errno 2] No such file or directory: python''))
       ''print(1)'' ''python'' {})) = None"
  by (simp add: execute_python_code_def execute_javascript_code_def execute_local_def
      raising_host_def exception_result_def node_missing_result_def local_body_def
      local_run_def local_failure_def get_suffix_def)

lemma generate_rule_based_hint_error_free:
  "generate_rule_based_hint e language code = generate_rule_based_hint e' language code"
  by (simp add: generate_rule_based_hint_def)

lemma generate_hint_database_failure:
  assumes "connect db = Some msg"
  shows "hint (fst (generate_hint db student_code error_msg language task_id))
     = generate_rule_based_hint error_msg language student_code"
  using assms by (simp add: generate_hint_def search_by_patterns_def Let_def)

lemma generate_hint_no_candidate:
  assumes "search_by_patterns db (extract_patterns student_code language) language task_id
             error_msg = Inr []"
  shows "hint (fst (generate_hint db student_code error_msg language task_id))
     = generate_rule_based_hint error_msg ''python'' student_code"
  using assms by (simp add: generate_hint_def generate_pattern_based_hint_def Let_def)

text \<open>
  C8. With no candidate the hint is to be the checklist of the request's language. The
  exception path passes the language on; the path with no candidate asks for the
  checklist of \<open>python\<close>, whatever the language: a java request without patterns gets
  the python checklist.
\<close>

theorem generate_hint_fallback_ignores_language:
  "search_by_patterns (holding_database []) (extract_patterns ''int x;'' ''java'') ''java'' None []
     = Inr []
   \<and> hint (fst (generate_hint (holding_database []) ''int x;'' [] ''java'' None))
     = generate_rule_based_hint [] ''python'' ''int x;''
   \<and> generate_rule_based_hint [] ''python'' ''int x;''
     \<noteq> generate_rule_based_hint [] ''java'' ''int x;''
   \<and> hint (fst (generate_hint closed_database ''int x;'' [] ''java'' None))
     = generate_rule_based_hint [] ''java'' ''int x;''"
proof -
  have e: "extract_patterns ''int x;'' ''java'' = []"
    by code_simp
  have s: "search_by_patterns (holding_database []) [] ''java'' None [] = Inr []"
    by (simp add: search_by_patterns_def holding_database_def)
  have n: "generate_rule_based_hint [] ''python'' ''int x;''
     \<noteq> generate_rule_based_hint [] ''java'' ''int x;''"
    by code_simp
  have c: "connect closed_database = Some ''unable to open database file''"
    by (simp add: closed_database_def)
  show ?thesis
    using e s n generate_hint_database_failure [OF c]
      generate_hint_no_candidate [of "holding_database []" "''int x;''" "''java''" None "[]"]
    by simp
qed

end
